theory Spec2Isabelle
  imports Main
begin

section \<open>JavaScript values\<close>

text \<open>
  The values that flow through \<^verbatim>\<open>database\<close> and \<^verbatim>\<open>query\<close>.
  \<open>JStatus code response\<close> is an instance of elysia's
  \<^verbatim>\<open>ElysiaCustomStatusResponse\<close>, the object that \<^verbatim>\<open>error(code, response)\<close>
  builds: a class instance whose own properties are \<^verbatim>\<open>code\<close> and
  \<^verbatim>\<open>response\<close>. \<open>JObj\<close> is a plain object, as an association list of its
  own properties. Numbers are kept to the integers (status codes, keys, counters).
\<close>

datatype jsval =
    JUndefined
  | JNull
  | JBool bool
  | JNum int
  | JStr string
  | JArr "jsval list"
  | JObj "(string \<times> jsval) list"
  | JStatus int jsval

text \<open>JavaScript throws any value.\<close>

type_synonym exn = jsval

fun typeof :: "jsval \<Rightarrow> string" where
  "typeof JUndefined = ''undefined''"
| "typeof JNull = ''object''"
| "typeof (JBool b) = ''boolean''"
| "typeof (JNum n) = ''number''"
| "typeof (JStr s) = ''string''"
| "typeof (JArr xs) = ''object''"
| "typeof (JObj kvs) = ''object''"
| "typeof (JStatus c r) = ''object''"

fun isArray :: "jsval \<Rightarrow> bool" where
  "isArray (JArr xs) = True"
| "isArray v = False"

text \<open>
  \<^verbatim>\<open>Object.hasOwn(v, k)\<close> for a property name \<open>k\<close> that is neither an index
  nor \<^verbatim>\<open>length\<close> (the source asks for \<^verbatim>\<open>code\<close> and \<^verbatim>\<open>response\<close> only,
  and only on a non-null, non-array object).
\<close>

fun hasOwn :: "jsval \<Rightarrow> string \<Rightarrow> bool" where
  "hasOwn (JObj kvs) k = (k \<in> set (map fst kvs))"
| "hasOwn (JStatus c r) k = (k = ''code'' \<or> k = ''response'')"
| "hasOwn v k = False"

text \<open>\<^verbatim>\<open>values.length\<close> of an array.\<close>

fun array_length :: "jsval \<Rightarrow> nat" where
  "array_length (JArr xs) = length xs"
| "array_length v = 0"

text \<open>\<^verbatim>\<open>values[0]\<close> of an array: \<^verbatim>\<open>undefined\<close> when the array is empty.\<close>

fun index0 :: "jsval \<Rightarrow> jsval" where
  "index0 (JArr (x # xs)) = x"
| "index0 v = JUndefined"

text \<open>elysia's \<^verbatim>\<open>error(code, response)\<close>.\<close>

definition error :: "int \<Rightarrow> string \<Rightarrow> jsval" where
  "error code response = JStatus code (JStr response)"

section \<open>Strings\<close>

text \<open>
  \<^verbatim>\<open>s.substring(start, end)\<close>: both indices are clamped to \<open>[0, length]\<close> and
  swapped when out of order. \<^verbatim>\<open>s.endsWith(t)\<close> compares the last characters.
\<close>

definition substring :: "string \<Rightarrow> int \<Rightarrow> int \<Rightarrow> string" where
  "substring s start end =
     (let n = int (length s);
          a = max 0 (min start n);
          b = max 0 (min end n);
          lo = min a b;
          hi = max a b
      in take (nat (hi - lo)) (drop (nat lo) s))"

definition endsWith :: "string \<Rightarrow> string \<Rightarrow> bool" where
  "endsWith s t = (length t \<le> length s \<and> drop (length s - length t) s = t)"

section \<open>The display name\<close>

definition formatItem :: "string \<Rightarrow> bool \<Rightarrow> string" where
  "formatItem name multiple =
     (if multiple then name
      else let shortened = substring name 0 (int (length name) - 1)
           in if endsWith shortened ''ie''
              then substring shortened 0 (int (length shortened) - 2) @ ''y''
              else shortened)"

section \<open>The world: console, database handle, external state\<close>

text \<open>
  A diagnostic argument: \<^verbatim>\<open>inspect(e)\<close> of a caught value, or a value passed to the
  console as it is.
\<close>

datatype diag = Inspect exn | Arg jsval

datatype log_entry =
    ConsoleError string "diag list"
  | ConsoleWarn string "diag list"

text \<open>
  A built \<^verbatim>\<open>select\<close>: drizzle's \<^verbatim>\<open>eq\<close>, \<^verbatim>\<open>and\<close> and \<^verbatim>\<open>desc\<close> are
  constructors; a caller's own SQL expression or column is opaque. The source passes
  \<^verbatim>\<open>idColumn!\<close> on without a check, so the column of \<open>SqlEq\<close> and
  \<open>SqlDesc\<close> is optional.
\<close>

datatype column = Column string

datatype row_identifier = IdStr string | IdNum int

datatype sql =
    SqlRaw string
  | SqlCol column
  | SqlEq "column option" row_identifier
  | SqlAnd sql sql
  | SqlDesc "column option"

datatype pg_table = PgTable string

fun getTableName :: "pg_table \<Rightarrow> string" where
  "getTableName (PgTable n) = n"

record select_query =
  from_table :: pg_table
  where_clause :: "sql option"
  orderBy :: "sql option"

text \<open>
  An awaited call on the outside world (state \<open>'x\<close>: the database's contents, a test's
  side-effect counter) either raises (\<open>Inl\<close>) or returns (\<open>Inr\<close>), and leaves a
  new state. The drizzle handle is what \<^verbatim>\<open>query\<close> uses of it: running a built
  \<^verbatim>\<open>select\<close>.
\<close>

type_synonym ('a, 'x) io = "'x \<Rightarrow> (exn + 'a) \<times> 'x"

record 'x drizzle_db =
  run_select :: "select_query \<Rightarrow> (jsval, 'x) io"

text \<open>
  \<open>db_handle\<close> is the module variable \<^verbatim>\<open>_database\<close>: unset, or the accessor that
  \<^verbatim>\<open>databaseInitialize\<close> stored.
\<close>

record 'x world =
  db_handle :: "('x drizzle_db, 'x) io option"
  console :: "log_entry list"
  ext :: 'x

definition databaseInitialize :: "('x drizzle_db, 'x) io \<Rightarrow> 'x world \<Rightarrow> 'x world" where
  "databaseInitialize drizzle w = w\<lparr>db_handle := Some drizzle\<rparr>"

definition console_error :: "string \<Rightarrow> diag list \<Rightarrow> 'x world \<Rightarrow> 'x world" where
  "console_error msg args w = w\<lparr>console := console w @ [ConsoleError msg args]\<rparr>"

definition console_warn :: "string \<Rightarrow> diag list \<Rightarrow> 'x world \<Rightarrow> 'x world" where
  "console_warn msg args w = w\<lparr>console := console w @ [ConsoleWarn msg args]\<rparr>"

section \<open>Guarded execution\<close>

text \<open>
  \<^verbatim>\<open>database(query, operation)\<close>. The accessor call \<^verbatim>\<open>_database()\<close> stands
  inside the \<^verbatim>\<open>try\<close>, so a raise of either the accessor or the operation is caught.
\<close>

definition database ::
  "('x drizzle_db \<Rightarrow> (jsval, 'x) io) \<Rightarrow> string \<Rightarrow> 'x world \<Rightarrow> jsval \<times> 'x world" where
  "database qry operation w =
     (case db_handle w of
        None \<Rightarrow>
          (error 503 ''database is not ready'',
           console_error ''databaseInitialize() has not been called yet!'' [] w)
      | Some accessor \<Rightarrow>
          (case accessor (ext w) of
             (Inl e, x1) \<Rightarrow>
               (error 500 (''couldn't '' @ operation),
                console_error (''an error occurred while '' @ operation) [Inspect e]
                  (w\<lparr>ext := x1\<rparr>))
           | (Inr drizzle, x1) \<Rightarrow>
               (case qry drizzle x1 of
                  (Inl e, x2) \<Rightarrow>
                    (error 500 (''couldn't '' @ operation),
                     console_error (''an error occurred while '' @ operation) [Inspect e]
                       (w\<lparr>ext := x2\<rparr>))
                | (Inr result, x2) \<Rightarrow> (result, w\<lparr>ext := x2\<rparr>))))"

section \<open>The schema, by what the dispatcher uses of it\<close>

text \<open>
  A TypeBox schema is used through its \<^verbatim>\<open>type\<close> tag and through
  \<^verbatim>\<open>Value.Convert\<close>, \<^verbatim>\<open>Value.Encode\<close>, \<^verbatim>\<open>Value.Check\<close>,
  \<^verbatim>\<open>Value.Errors\<close>, \<^verbatim>\<open>Value.Clean\<close> and \<^verbatim>\<open>Value.Cast\<close>, each applied to
  the schema first. The library is not part of the repository: its operations are the
  fields of the schema, and every schema is a possible one. \<open>Encode\<close> is the call the
  source guards with \<^verbatim>\<open>try\<close>, so it returns a sum; the others are called unguarded and
  are taken as returning.
\<close>

record tschema =
  schema_type :: string
  Convert :: "jsval \<Rightarrow> jsval"
  Encode :: "jsval \<Rightarrow> exn + jsval"
  Check :: "jsval \<Rightarrow> bool"
  Errors :: "jsval \<Rightarrow> jsval list"
  Clean :: "jsval \<Rightarrow> jsval"
  Cast :: "jsval \<Rightarrow> jsval"

definition isTArray :: "tschema \<Rightarrow> bool" where
  "isTArray sch = (schema_type sch = ''array'')"

section \<open>The query dispatcher\<close>

text \<open>
  The argument object of \<^verbatim>\<open>query\<close>. The parameters \<^verbatim>\<open>id\<close> and \<^verbatim>\<open>query\<close>
  are \<open>id_param\<close> and \<open>query_param\<close> here; an absent field is \<open>None\<close>, and
  \<^verbatim>\<open>opaque\<close> has its default \<^verbatim>\<open>false\<close> filled in.
\<close>

record 'x request =
  table :: pg_table
  schema :: tschema
  id_param :: "row_identifier option"
  idColumn :: "column option"
  query_param :: "sql option"
  order :: "sql option"
  complex :: "('x drizzle_db \<Rightarrow> (jsval, 'x) io) option"
  opaque :: bool

text \<open>The closure handed to \<^verbatim>\<open>database\<close> (lines 171 to 215), branch by branch.\<close>

definition query_operation :: "'x request \<Rightarrow> 'x drizzle_db \<Rightarrow> (jsval, 'x) io" where
  "query_operation r drizzle =
     (case complex r of
        Some c \<Rightarrow> c drizzle
      | None \<Rightarrow>
          (case query_param r of
             Some q \<Rightarrow>
               (case id_param r of
                  Some i \<Rightarrow>
                    run_select drizzle
                      \<lparr>from_table = table r,
                       where_clause = Some (SqlAnd (SqlEq (idColumn r) i) q),
                       orderBy = Some (case order r of Some ord \<Rightarrow> ord
                                       | None \<Rightarrow> SqlDesc (idColumn r))\<rparr>
                | None \<Rightarrow>
                    (case order r of
                       Some ord \<Rightarrow>
                         run_select drizzle
                           \<lparr>from_table = table r, where_clause = Some q,
                            orderBy = Some ord\<rparr>
                     | None \<Rightarrow>
                         run_select drizzle
                           \<lparr>from_table = table r, where_clause = Some q,
                            orderBy = None\<rparr>))
           | None \<Rightarrow>
               (case id_param r of
                  Some i \<Rightarrow>
                    run_select drizzle
                      \<lparr>from_table = table r,
                       where_clause = Some (SqlEq (idColumn r) i),
                       orderBy = Some (case order r of Some ord \<Rightarrow> ord
                                       | None \<Rightarrow> SqlDesc (idColumn r))\<rparr>
                | None \<Rightarrow>
                    (case order r of
                       Some ord \<Rightarrow>
                         run_select drizzle
                           \<lparr>from_table = table r, where_clause = None,
                            orderBy = Some ord\<rparr>
                     | None \<Rightarrow>
                         run_select drizzle
                           \<lparr>from_table = table r, where_clause = None,
                            orderBy = None\<rparr>))))"

text \<open>The test of lines 217 to 223, conjunct by conjunct.\<close>

definition looks_like_status :: "jsval \<Rightarrow> bool" where
  "looks_like_status values =
     (typeof values = ''object'' \<and> \<not> isArray values \<and> values \<noteq> JNull \<and>
      hasOwn values ''code'' \<and> hasOwn values ''response'')"

text \<open>The test of lines 227 and 228.\<close>

definition not_found_test :: "bool \<Rightarrow> jsval \<Rightarrow> bool" where
  "not_found_test multiple values =
     (\<not> multiple \<and>
      ((isArray values \<and> array_length values \<noteq> 1) \<or> values = JUndefined))"

text \<open>
  What \<^verbatim>\<open>query\<close> returns, tagged by the \<^verbatim>\<open>return\<close> statement that returned it:
  line 224 (\<open>Propagated\<close>), lines 230 and 231 (\<open>NotFound\<close>), lines 254 and 255
  (\<open>RetrieveFailed\<close>), line 260 (\<open>Success\<close>).
\<close>

datatype outcome =
    Propagated jsval
  | NotFound jsval
  | RetrieveFailed jsval
  | Success jsval

fun returned :: "outcome \<Rightarrow> jsval" where
  "returned (Propagated v) = v"
| "returned (NotFound v) = v"
| "returned (RetrieveFailed v) = v"
| "returned (Success v) = v"

text \<open>Lines 237 to 245: the encoding pass and its \<^verbatim>\<open>catch\<close>.\<close>

definition encode_pass :: "tschema \<Rightarrow> string \<Rightarrow> jsval \<Rightarrow> 'x world \<Rightarrow> jsval \<times> 'x world" where
  "encode_pass sch title v w =
     (case Encode sch v of
        Inr encoded \<Rightarrow> (encoded, w)
      | Inl e \<Rightarrow>
          (v, console_warn (''an error occurred while encoding '' @ title)
                [Arg v, Arg (JArr (Errors sch v))] w))"

text \<open>Lines 247 to 260: the validity check, then clean and cast.\<close>

definition check_and_clean ::
  "tschema \<Rightarrow> string \<Rightarrow> bool \<Rightarrow> jsval \<Rightarrow> 'x world \<Rightarrow> outcome \<times> 'x world" where
  "check_and_clean sch title opq v w =
     (if \<not> Check sch v
      then (let w' = console_error (''an error occurred while parsing '' @ title)
                       [Arg v, Arg (JArr (Errors sch v))] w
            in if opq then (RetrieveFailed JUndefined, w')
               else (RetrieveFailed (error 500 (''couldn't retrieve '' @ title)), w'))
      else (Success (Cast sch (Clean sch v)), w))"

text \<open>Lines 168 and 169: the mode and the display name.\<close>

definition display_name :: "'x request \<Rightarrow> string" where
  "display_name r = formatItem (getTableName (table r)) (isTArray (schema r))"

text \<open>Lines 233 to 235: the value that is converted, and its conversion.\<close>

definition converted :: "tschema \<Rightarrow> bool \<Rightarrow> jsval \<Rightarrow> jsval" where
  "converted sch multiple values =
     (if multiple then Convert sch values
      else Convert sch (if isArray values then index0 values else values))"

text \<open>Lines 217 to 260: what \<^verbatim>\<open>query\<close> does with the awaited \<^verbatim>\<open>values\<close>.\<close>

definition classify ::
  "tschema \<Rightarrow> string \<Rightarrow> bool \<Rightarrow> bool \<Rightarrow> jsval \<times> 'x world \<Rightarrow> outcome \<times> 'x world" where
  "classify sch title multiple opq res =
     (case res of (values, w1) \<Rightarrow>
        if looks_like_status values then (Propagated values, w1)
        else if not_found_test multiple values
        then (if opq then (NotFound JUndefined, w1)
              else (NotFound (error 404 (title @ '' not found'')), w1))
        else
          (case encode_pass sch title (converted sch multiple values) w1 of
             (v, w2) \<Rightarrow> check_and_clean sch title opq v w2))"

text \<open>
  The body of \<^verbatim>\<open>query\<close>: \<^verbatim>\<open>database\<close> runs the closure under the label
  \<^verbatim>\<open>query ${title}\<close>, and the result is classified. \<open>query\<close> is the function as
  the caller sees it; \<open>query_outcome\<close> keeps the tag of the returning statement.
\<close>

definition query_outcome :: "'x request \<Rightarrow> 'x world \<Rightarrow> outcome \<times> 'x world" where
  "query_outcome r w =
     (let multiple = isTArray (schema r);
          title = display_name r
      in classify (schema r) title multiple (opaque r)
           (database (query_operation r) (''query '' @ title) w))"

definition query :: "'x request \<Rightarrow> 'x world \<Rightarrow> jsval \<times> 'x world" where
  "query r w = (case query_outcome r w of (out, w') \<Rightarrow> (returned out, w'))"

section \<open>Declared properties\<close>

text \<open>
  Keeping the properties of an object that a list of names declares, in every element
  when the value is an array; other values are left as they are. \<open>get_prop\<close> reads
  an own property, and \<open>only_declared\<close> says that no other property is there.
\<close>

fun project :: "string list \<Rightarrow> jsval \<Rightarrow> jsval" where
  "project ks (JObj kvs) = JObj (filter (\<lambda>kv. fst kv \<in> set ks) kvs)"
| "project ks (JArr xs) = JArr (map (project ks) xs)"
| "project ks v = v"

fun get_prop :: "jsval \<Rightarrow> string \<Rightarrow> jsval option" where
  "get_prop (JObj kvs) k = map_of kvs k"
| "get_prop v k = None"


section \<open>The schema library, as the specification describes it\<close>

text \<open>
  Modelled from the spec: the operations of the schema library (TypeBox's
  \<^verbatim>\<open>Value.Convert\<close>, \<^verbatim>\<open>Value.Clean\<close> and \<^verbatim>\<open>Value.Cast\<close>), which are
  outside the repository. Conversion is a lenient coercion, so it leaves a value that
  already satisfies the schema as it is (the coercion of other values is a parameter);
  the clean-and-cast step drops the properties that the schema does not declare and
  returns the cleaned value. The type tag, the declared properties, the check, the
  encoding pass (declared transforms and defaults) and the enumeration of errors are
  parameters.
\<close>

definition spec_schema ::
  "string \<Rightarrow> string list \<Rightarrow> (jsval \<Rightarrow> bool) \<Rightarrow> (jsval \<Rightarrow> jsval) \<Rightarrow> (jsval \<Rightarrow> exn + jsval) \<Rightarrow>
   (jsval \<Rightarrow> jsval list) \<Rightarrow> tschema" where
  "spec_schema ty declared chk coerce enc errs =
     \<lparr>schema_type = ty,
      Convert = (\<lambda>v. if chk v then v else coerce v),
      Encode = enc,
      Check = chk,
      Errors = errs,
      Clean = project declared,
      Cast = (\<lambda>v. v)\<rparr>"

section \<open>Fixtures: the tables and schemas of the package's documentation\<close>

text \<open>
  \<^verbatim>\<open>Type.Object({ id: Type.Integer(), name: Type.String() })\<close>, with no transform:
  conversion, encoding and cast leave a valid value as it is, and cleaning keeps the two
  declared properties.
\<close>

definition user_check :: "jsval \<Rightarrow> bool" where
  "user_check v =
     (case get_prop v ''id'' of
        Some (JNum n) \<Rightarrow> (case get_prop v ''name'' of Some (JStr s) \<Rightarrow> True | _ \<Rightarrow> False)
      | _ \<Rightarrow> False)"

definition User :: tschema where
  "User = \<lparr>schema_type = ''object'', Convert = (\<lambda>v. v), Encode = Inr,
           Check = user_check, Errors = (\<lambda>v. []),
           Clean = project [''id'', ''name''], Cast = (\<lambda>v. v)\<rparr>"

text \<open>\<^verbatim>\<open>Type.Array(User)\<close>.\<close>

fun users_check :: "jsval \<Rightarrow> bool" where
  "users_check (JArr xs) = list_all user_check xs"
| "users_check v = False"

definition Users :: tschema where
  "Users = \<lparr>schema_type = ''array'', Convert = (\<lambda>v. v), Encode = Inr,
            Check = users_check, Errors = (\<lambda>v. []),
            Clean = project [''id'', ''name''], Cast = (\<lambda>v. v)\<rparr>"

text \<open>
  A database whose state is the number of reads it has served: the table
  \<^verbatim>\<open>users\<close> holds one row, with id 1; a read by the id 2 finds nothing, and
  every other read returns that row.
\<close>

definition alice :: jsval where
  "alice = JObj [(''id'', JNum 1), (''name'', JStr ''alice''), (''password'', JStr ''secret'')]"

definition counting_db :: "nat drizzle_db" where
  "counting_db =
     \<lparr>run_select = (\<lambda>q n.
        (Inr (if where_clause q = Some (SqlEq (Some (Column ''id'')) (IdNum 2))
              then JArr [] else JArr [alice]),
         Suc n))\<rparr>"

definition unbound_world :: "nat world" where
  "unbound_world = \<lparr>db_handle = None, console = [], ext = 0\<rparr>"

definition ready_world :: "nat world" where
  "ready_world = databaseInitialize (\<lambda>n. (Inr counting_db, n)) unbound_world"

definition users :: pg_table where
  "users = PgTable ''users''"

text \<open>\<^verbatim>\<open>query({ id, idColumn: users.id, table: users, schema: User })\<close>.\<close>

definition queryUser :: "int \<Rightarrow> nat request" where
  "queryUser i =
     \<lparr>table = users, schema = User, id_param = Some (IdNum i),
      idColumn = Some (Column ''id''), query_param = None, order = None,
      complex = None, opaque = False\<rparr>"

text \<open>\<^verbatim>\<open>query({ table: users, schema: Type.Array(User) })\<close>.\<close>

definition queryUsers :: "nat request" where
  "queryUsers =
     \<lparr>table = users, schema = Users, id_param = None, idColumn = None,
      query_param = None, order = None, complex = None, opaque = False\<rparr>"

text \<open>An operation that raises, and one that counts its own calls.\<close>

definition failing_operation :: "nat drizzle_db \<Rightarrow> (jsval, nat) io" where
  "failing_operation drizzle n = (Inl (JStr ''connection reset''), Suc n)"

definition counting_operation :: "nat drizzle_db \<Rightarrow> (jsval, nat) io" where
  "counting_operation drizzle n = (Inr (JStr ''success''), Suc n)"

text \<open>
  Custom query functions: one returns the row without a read, one returns a record
  that has the properties \<^verbatim>\<open>code\<close> and \<^verbatim>\<open>response\<close>.
\<close>

definition custom_alice :: "nat drizzle_db \<Rightarrow> (jsval, nat) io" where
  "custom_alice drizzle n = (Inr alice, n)"

definition coded_row :: jsval where
  "coded_row = JObj [(''code'', JNum 7), (''response'', JStr ''yes''), (''id'', JNum 1)]"

definition custom_coded_row :: "nat drizzle_db \<Rightarrow> (jsval, nat) io" where
  "custom_coded_row drizzle n = (Inr coded_row, n)"

text \<open>The \<open>User\<close> schema with an encoding pass that raises.\<close>

definition User_encode_fails :: tschema where
  "User_encode_fails = User\<lparr>Encode := (\<lambda>v. Inl (JStr ''no encoder''))\<rparr>"

text \<open>
  \<^verbatim>\<open>Type.Array(User, { minItems: 1 })\<close>, and a read under it that finds no row.
\<close>

definition Users_nonempty :: tschema where
  "Users_nonempty = Users\<lparr>Check := (\<lambda>v. users_check v \<and> v \<noteq> JArr [])\<rparr>"

definition queryNoUsers :: "nat request" where
  "queryNoUsers =
     \<lparr>table = users, schema = Users_nonempty, id_param = Some (IdNum 2),
      idColumn = Some (Column ''id''), query_param = None, order = None,
      complex = None, opaque = False\<rparr>"








section \<open>Helper facts\<close>

lemma formatItem_multiple: "formatItem name True = name"
  by (simp add: formatItem_def)

lemma substring_butlast: "substring s 0 (int (length s) - 1) = butlast s"
  by (cases s rule: rev_cases) (simp_all add: substring_def Let_def)

lemma substring_butlast2: "substring s 0 (int (length s) - 2) = butlast (butlast s)"
proof -
  have "nat (max 0 (min (int (length s) - 2) (int (length s)))) = length s - 2"
    by simp
  moreover have "butlast (butlast s) = take (length s - 2) s"
    by (simp add: butlast_conv_take numeral_2_eq_2)
  ultimately show ?thesis by (simp add: substring_def Let_def)
qed

lemma formatItem_singular:
  "formatItem name False =
     (if endsWith (butlast name) ''ie'' then butlast (butlast (butlast name)) @ ''y''
      else butlast name)"
  unfolding formatItem_def Let_def substring_butlast
  by (simp only: substring_butlast2 if_False)

lemma database_returns:
  "db_handle w = Some accessor \<Longrightarrow> accessor (ext w) = (Inr drizzle, x1) \<Longrightarrow>
   operation drizzle x1 = (Inr result, x2) \<Longrightarrow>
   database operation label w = (result, w\<lparr>ext := x2\<rparr>)"
  by (simp add: database_def)

lemma database_raises:
  "db_handle w = Some accessor \<Longrightarrow> accessor (ext w) = (Inr drizzle, x1) \<Longrightarrow>
   operation drizzle x1 = (Inl e, x2) \<Longrightarrow>
   database operation label w =
     (JStatus 500 (JStr (''couldn't '' @ label)),
      console_error (''an error occurred while '' @ label) [Inspect e] (w\<lparr>ext := x2\<rparr>))"
  by (simp add: database_def error_def)

lemma looks_like_status_JStatus: "looks_like_status (JStatus c v)"
  by (simp add: looks_like_status_def)

lemma looks_like_status_JObj:
  "looks_like_status (JObj props) \<longleftrightarrow>
     ''code'' \<in> fst ` set props \<and> ''response'' \<in> fst ` set props"
  by (simp add: looks_like_status_def)

lemma query_propagates:
  "database (query_operation r) (''query '' @ display_name r) w = (values, w1) \<Longrightarrow>
   looks_like_status values \<Longrightarrow> query_outcome r w = (Propagated values, w1)"
  by (simp add: query_outcome_def classify_def)

lemma query_fst: "fst (query r w) = returned (fst (query_outcome r w))"
  by (simp add: query_def split: prod.splits)

lemma query_snd: "snd (query r w) = snd (query_outcome r w)"
  by (simp add: query_def split: prod.splits)

lemma not_found_test_iff:
  "not_found_test multiple values \<longleftrightarrow>
     \<not> multiple \<and> (values = JUndefined \<or> (\<exists>rows. values = JArr rows \<and> length rows \<noteq> 1))"
  by (cases "values") (auto simp: not_found_test_def)

lemma not_found_not_status: "not_found_test multiple values \<Longrightarrow> \<not> looks_like_status values"
  by (cases "values") (auto simp: not_found_test_def looks_like_status_def)

lemma classify_not_found:
  "not_found_test multiple values \<Longrightarrow>
   classify sch title multiple opq (values, w1) =
     (NotFound (if opq then JUndefined else JStatus 404 (JStr (title @ '' not found''))), w1)"
  by (simp add: classify_def not_found_not_status error_def)

lemma classify_normalise:
  "\<not> looks_like_status values \<Longrightarrow> \<not> not_found_test multiple values \<Longrightarrow>
   classify sch title multiple opq (values, w1) =
     (case encode_pass sch title (converted sch multiple values) w1 of
        (v, w2) \<Rightarrow> check_and_clean sch title opq v w2)"
  by (simp add: classify_def)

lemma check_and_clean_not_NotFound: "fst (check_and_clean sch title opq v w) \<noteq> NotFound u"
  by (simp add: check_and_clean_def Let_def)

lemma classify_NotFound_iff:
  "(\<exists>u. fst (classify sch title multiple opq (values, w1)) = NotFound u) \<longleftrightarrow>
     not_found_test multiple values"
proof (cases "not_found_test multiple values")
  case True
  then show ?thesis by (simp add: classify_not_found)
next
  case nf: False
  show ?thesis
  proof (cases "looks_like_status values")
    case True
    then show ?thesis using nf by (simp add: classify_def)
  next
    case False
    obtain v w2 where e: "encode_pass sch title (converted sch multiple values) w1 = (v, w2)"
      by (cases "encode_pass sch title (converted sch multiple values) w1")
    have "classify sch title multiple opq (values, w1) = check_and_clean sch title opq v w2"
      using False nf e by (simp add: classify_normalise)
    then show ?thesis using nf by (simp add: check_and_clean_not_NotFound)
  qed
qed

lemma query_outcome_returns:
  "db_handle w = Some accessor \<Longrightarrow> accessor (ext w) = (Inr drizzle, x1) \<Longrightarrow>
   query_operation r drizzle x1 = (Inr values, x2) \<Longrightarrow>
   query_outcome r w =
     classify (schema r) (display_name r) (isTArray (schema r)) (opaque r)
       (values, w\<lparr>ext := x2\<rparr>)"
  by (simp add: query_outcome_def database_returns)

lemma check_and_clean_Encode [simp]:
  "check_and_clean (sch\<lparr>Encode := f\<rparr>) = check_and_clean sch"
  by (simp add: check_and_clean_def fun_eq_iff)

lemma converted_Encode [simp]: "converted (sch\<lparr>Encode := f\<rparr>) = converted sch"
  by (simp add: converted_def fun_eq_iff)

lemma check_and_clean_fst:
  "fst (check_and_clean sch title opq v w) =
     (if Check sch v then Success (Cast sch (Clean sch v))
      else RetrieveFailed (if opq then JUndefined
                           else JStatus 500 (JStr (''couldn't retrieve '' @ title))))"
  by (simp add: check_and_clean_def Let_def error_def)

lemma check_and_clean_ext: "ext (snd (check_and_clean sch title opq v w)) = ext w"
  by (simp add: check_and_clean_def Let_def console_error_def)

lemma encode_pass_raises:
  "Encode sch v = Inl e \<Longrightarrow>
   encode_pass sch title v w =
     (v, console_warn (''an error occurred while encoding '' @ title)
           [Arg v, Arg (JArr (Errors sch v))] w)"
  by (simp add: encode_pass_def)

lemma encode_pass_returns: "Encode sch v = Inr v' \<Longrightarrow> encode_pass sch title v w = (v', w)"
  by (simp add: encode_pass_def)

lemma query_operation_schema [simp]:
  "query_operation (r\<lparr>schema := s\<rparr>) = query_operation r"
  by (simp add: query_operation_def fun_eq_iff split: option.splits)

lemma display_name_Encode [simp]:
  "display_name (r\<lparr>schema := (schema r)\<lparr>Encode := f\<rparr>\<rparr>) = display_name r"
  by (simp add: display_name_def isTArray_def)

lemma isTArray_Encode [simp]: "isTArray (sch\<lparr>Encode := f\<rparr>) = isTArray sch"
  by (simp add: isTArray_def)

lemma encode_pass_noop: "encode_pass (sch\<lparr>Encode := Inr\<rparr>) title v w = (v, w)"
  by (simp add: encode_pass_def)

lemma console_warn_ext: "ext (console_warn msg args w) = ext w"
  by (simp add: console_warn_def)

lemma query_outcome_database:
  "database (query_operation r) (''query '' @ display_name r) w = res \<Longrightarrow>
   query_outcome r w =
     classify (schema r) (display_name r) (isTArray (schema r)) (opaque r) res"
  by (simp add: query_outcome_def)




lemma looks_like_status_JArr: "\<not> looks_like_status (JArr rows)"
  by (simp add: looks_like_status_def)

lemma encode_pass_fst:
  "fst (encode_pass sch title v w) = (case Encode sch v of Inr u \<Rightarrow> u | Inl e \<Rightarrow> v)"
  by (simp add: encode_pass_def split: sum.splits)

lemma spec_schema_sel [simp]:
  "schema_type (spec_schema ty declared chk coerce enc errs) = ty"
  "Convert (spec_schema ty declared chk coerce enc errs) = (\<lambda>v. if chk v then v else coerce v)"
  "Encode (spec_schema ty declared chk coerce enc errs) = enc"
  "Check (spec_schema ty declared chk coerce enc errs) = chk"
  "Errors (spec_schema ty declared chk coerce enc errs) = errs"
  "Clean (spec_schema ty declared chk coerce enc errs) = project declared"
  "Cast (spec_schema ty declared chk coerce enc errs) = (\<lambda>v. v)"
  by (simp_all add: spec_schema_def)


section \<open>Properties of the guarded wrapper and the dispatcher\<close>

text \<open>
  C6. The display name is the table's name under an array schema. Under any other schema
  it is the name without its last character, and when what is left ends in \<open>ie\<close>
  those two characters are replaced by \<open>y\<close>: \<open>categories\<close> gives \<open>category\<close>,
  \<open>entries\<close> gives \<open>entry\<close>, \<open>users\<close> gives \<open>user\<close>.
\<close>

theorem C6_display_name:
  "display_name r =
     (if isTArray (schema r) then getTableName (table r)
      else if endsWith (butlast (getTableName (table r))) ''ie''
      then butlast (butlast (butlast (getTableName (table r)))) @ ''y''
      else butlast (getTableName (table r)))
   \<and> formatItem (stem @ ''ie'' @ [c]) False = stem @ ''y''
   \<and> formatItem ''categories'' False = ''category''
   \<and> formatItem ''entries'' False = ''entry''
   \<and> formatItem ''users'' False = ''user''"
proof -
  have 1: "display_name r =
     (if isTArray (schema r) then getTableName (table r)
      else if endsWith (butlast (getTableName (table r))) ''ie''
      then butlast (butlast (butlast (getTableName (table r)))) @ ''y''
      else butlast (getTableName (table r)))"
    by (simp add: display_name_def formatItem_multiple formatItem_singular)
  have 2: "formatItem (stem @ ''ie'' @ [c]) False = stem @ ''y''"
    by (simp add: formatItem_singular endsWith_def butlast_append)
  have 3: "formatItem ''categories'' False = ''category''"
    by (simp add: formatItem_singular endsWith_def)
  have 4: "formatItem ''entries'' False = ''entry''"
    by (simp add: formatItem_singular endsWith_def)
  have 5: "formatItem ''users'' False = ''user''"
    by (simp add: formatItem_singular endsWith_def)
  from 1 2 3 4 5 show ?thesis by blast
qed

text \<open>
  C3. While the database handle is unbound, the guarded wrapper returns the status 503
  with the message \<open>database is not ready\<close> and logs one diagnostic. The result does
  not depend on the operation and the outside state is the one before the call: the
  operation is not invoked.
\<close>

theorem C3_unbound_handle:
  "db_handle w = None \<Longrightarrow>
     database operation label w =
       (JStatus 503 (JStr ''database is not ready''),
        w\<lparr>console := console w @
             [ConsoleError ''databaseInitialize() has not been called yet!'' []]\<rparr>)
     \<and> ext (snd (database operation label w)) = ext w"
  by (simp add: database_def error_def console_error_def)

theorem C3_unbound_handle_witness:
  "db_handle unbound_world = None
   \<and> fst (database counting_operation ''insert user'' unbound_world) =
       JStatus 503 (JStr ''database is not ready'')
   \<and> ext (snd (database counting_operation ''insert user'' unbound_world)) = 0
   \<and> fst (database failing_operation ''insert user'' unbound_world) =
       JStatus 503 (JStr ''database is not ready'')"
  using C3_unbound_handle [of unbound_world counting_operation "''insert user''"]
        C3_unbound_handle [of unbound_world failing_operation "''insert user''"]
  by (simp add: unbound_world_def)

text \<open>
  C4. With the handle bound, an operation that raises makes the guarded wrapper return
  the status 500 with the message \<open>couldn't\<close> followed by the label, after one
  diagnostic. The dispatcher's label is \<open>query\<close> followed by the display name, so a
  raise of its own operation is returned as \<open>couldn't query\<close> and the display name.
\<close>

theorem C4_operation_raises:
  assumes "db_handle w = Some accessor" and "accessor (ext w) = (Inr drizzle, x1)"
  shows "(operation drizzle x1 = (Inl e, x2) \<longrightarrow>
            database operation label w =
              (JStatus 500 (JStr (''couldn't '' @ label)),
               console_error (''an error occurred while '' @ label) [Inspect e]
                 (w\<lparr>ext := x2\<rparr>)))
       \<and> (query_operation r drizzle x1 = (Inl e, x2) \<longrightarrow>
            fst (query r w) = JStatus 500 (JStr (''couldn't query '' @ display_name r)))"
proof (intro conjI impI)
  assume "operation drizzle x1 = (Inl e, x2)"
  with assms show "database operation label w =
      (JStatus 500 (JStr (''couldn't '' @ label)),
       console_error (''an error occurred while '' @ label) [Inspect e] (w\<lparr>ext := x2\<rparr>))"
    by (rule database_raises)
next
  assume "query_operation r drizzle x1 = (Inl e, x2)"
  with assms have "database (query_operation r) (''query '' @ display_name r) w =
      (JStatus 500 (JStr (''couldn't '' @ (''query '' @ display_name r))),
       console_error (''an error occurred while '' @ (''query '' @ display_name r)) [Inspect e]
         (w\<lparr>ext := x2\<rparr>))"
    by (rule database_raises)
  then have "fst (query_outcome r w) =
      Propagated (JStatus 500 (JStr (''couldn't '' @ (''query '' @ display_name r))))"
    using query_propagates looks_like_status_JStatus by (metis fst_conv)
  then show "fst (query r w) = JStatus 500 (JStr (''couldn't query '' @ display_name r))"
    by (simp add: query_fst)
qed

theorem C4_operation_raises_witness:
  "database failing_operation ''insert user'' ready_world =
     (JStatus 500 (JStr ''couldn't insert user''),
      console_error ''an error occurred while insert user''
        [Inspect (JStr ''connection reset'')] (ready_world\<lparr>ext := 1\<rparr>))
   \<and> fst (query ((queryUser 1)\<lparr>complex := Some failing_operation\<rparr>) ready_world) =
       JStatus 500 (JStr ''couldn't query user'')"
  using C4_operation_raises [where w = ready_world and accessor = "\<lambda>n. (Inr counting_db, n)"
      and drizzle = counting_db and ?x1.0 = 0 and operation = failing_operation
      and e = "JStr ''connection reset''" and ?x2.0 = 1 and label = "''insert user''"
      and r = "(queryUser 1)\<lparr>complex := Some failing_operation\<rparr>"]
  by (simp add: ready_world_def unbound_world_def databaseInitialize_def failing_operation_def
      query_operation_def queryUser_def display_name_def formatItem_singular endsWith_def
      users_def User_def isTArray_def)

text \<open>
  C1, on the code: in opaque mode, with the handle unbound, the dispatcher returns the
  status object 503, and with an operation that raises it returns the status object 500;
  neither is \<open>JUndefined\<close>.
\<close>

theorem C1_opaque_returns_status:
  "fst (query ((queryUser 1)\<lparr>opaque := True\<rparr>) unbound_world) =
     JStatus 503 (JStr ''database is not ready'')
   \<and> fst (query ((queryUser 1)\<lparr>opaque := True, complex := Some failing_operation\<rparr>) ready_world) =
     JStatus 500 (JStr ''couldn't query user'')"
  by (simp add: query_def query_outcome_def classify_def database_def error_def
      looks_like_status_def unbound_world_def ready_world_def databaseInitialize_def
      queryUser_def query_operation_def failing_operation_def display_name_def
      formatItem_singular endsWith_def users_def User_def isTArray_def console_error_def Let_def)

text \<open>
  C10. When the operation returns a plain object that owns both \<open>code\<close> and
  \<open>response\<close>, the dispatcher takes it for a status object of the guarded wrapper and
  returns it as it is, in opaque and in non-opaque mode: nothing is logged, and no
  operation of the schema (conversion, encoding, check, clean, cast) has a part in the
  result.
\<close>

theorem C10_status_shaped_result:
  assumes "db_handle w = Some accessor" and "accessor (ext w) = (Inr drizzle, x1)"
    and "query_operation r drizzle x1 = (Inr (JObj props), x2)"
    and "''code'' \<in> fst ` set props" and "''response'' \<in> fst ` set props"
  shows "query_outcome r w = (Propagated (JObj props), w\<lparr>ext := x2\<rparr>)
       \<and> query (r\<lparr>opaque := True\<rparr>) w = (JObj props, w\<lparr>ext := x2\<rparr>)
       \<and> query (r\<lparr>opaque := False\<rparr>) w = (JObj props, w\<lparr>ext := x2\<rparr>)"
proof -
  have st: "looks_like_status (JObj props)"
    using assms(4,5) by (simp add: looks_like_status_JObj)
  have op: "query_operation (r\<lparr>opaque := b\<rparr>) = query_operation r" for b
    by (simp add: query_operation_def fun_eq_iff split: option.splits)
  have "query_outcome (r\<lparr>opaque := b\<rparr>) w = (Propagated (JObj props), w\<lparr>ext := x2\<rparr>)" for b
    using query_outcome_returns [OF assms(1,2), of "r\<lparr>opaque := b\<rparr>" "JObj props" x2]
      assms(3) st
    by (simp add: op classify_def)
  moreover have "query_outcome r w = (Propagated (JObj props), w\<lparr>ext := x2\<rparr>)"
    using query_outcome_returns [OF assms(1,2,3)] st by (simp add: classify_def)
  ultimately show ?thesis by (simp add: query_def)
qed

theorem C10_status_shaped_result_witness:
  "query ((queryUser 1)\<lparr>complex := Some custom_coded_row, opaque := True\<rparr>) ready_world =
     (JObj [(''code'', JNum 7), (''response'', JStr ''yes''), (''id'', JNum 1)], ready_world)
   \<and> query ((queryUser 1)\<lparr>complex := Some custom_coded_row, opaque := False\<rparr>) ready_world =
     (JObj [(''code'', JNum 7), (''response'', JStr ''yes''), (''id'', JNum 1)], ready_world)"
  using C10_status_shaped_result [where w = ready_world
      and accessor = "\<lambda>n. (Inr counting_db, n)" and drizzle = counting_db and ?x1.0 = 0
      and r = "(queryUser 1)\<lparr>complex := Some custom_coded_row\<rparr>"
      and props = "[(''code'', JNum 7), (''response'', JStr ''yes''), (''id'', JNum 1)]"
      and ?x2.0 = 0]
  by (simp add: ready_world_def unbound_world_def databaseInitialize_def query_operation_def
      custom_coded_row_def coded_row_def)

text \<open>
  C5. With a custom query function, the operation handed to the guarded wrapper is that
  function itself; the dispatcher classifies what the wrapper returns for it, and the
  identifier, its column, the filter and the ordering do not change the result.
\<close>

theorem C5_custom_function_only:
  "query_operation (r\<lparr>complex := Some f\<rparr>) = f
   \<and> query_outcome (r\<lparr>complex := Some f\<rparr>) w =
       classify (schema r) (display_name r) (isTArray (schema r)) (opaque r)
         (database f (''query '' @ display_name r) w)
   \<and> query (r\<lparr>complex := Some f, id_param := i, idColumn := c, query_param := q,
               order := ord\<rparr>) w =
       query (r\<lparr>complex := Some f\<rparr>) w"
proof -
  have 1: "query_operation (r'\<lparr>complex := Some f\<rparr>) = f" for r' :: "'a request"
    by (simp add: query_operation_def fun_eq_iff)
  have 2: "query_outcome (r'\<lparr>complex := Some f\<rparr>) w =
       classify (schema r') (display_name r') (isTArray (schema r')) (opaque r')
         (database f (''query '' @ display_name r') w)" for r' :: "'a request"
    by (simp add: query_outcome_def 1 display_name_def Let_def)
  have "r\<lparr>complex := Some f, id_param := i, idColumn := c, query_param := q, order := ord\<rparr> =
        (r\<lparr>id_param := i, idColumn := c, query_param := q, order := ord\<rparr>)\<lparr>complex := Some f\<rparr>"
    by simp
  then have 3: "query_outcome (r\<lparr>complex := Some f, id_param := i, idColumn := c,
        query_param := q, order := ord\<rparr>) w = query_outcome (r\<lparr>complex := Some f\<rparr>) w"
    by (simp only: 2) (simp add: display_name_def)
  show ?thesis using 1 2 3 by (simp add: query_def)
qed

theorem C5_custom_function_only_witness:
  "query ((queryUser 1)\<lparr>complex := Some custom_alice\<rparr>) ready_world =
     (JObj [(''id'', JNum 1), (''name'', JStr ''alice'')], ready_world)
   \<and> query ((queryUser 1)\<lparr>complex := Some custom_alice, id_param := Some (IdNum 2),
         idColumn := None, query_param := Some (SqlRaw ''false''),
         order := Some (SqlCol (Column ''name''))\<rparr>) ready_world =
     (JObj [(''id'', JNum 1), (''name'', JStr ''alice'')], ready_world)"
  using C5_custom_function_only [where r = "queryUser 1" and f = custom_alice
      and w = ready_world and i = "Some (IdNum 2)" and c = None
      and q = "Some (SqlRaw ''false'')" and ord = "Some (SqlCol (Column ''name''))"]
  by (simp add: query_def classify_def database_def ready_world_def unbound_world_def
      databaseInitialize_def custom_alice_def alice_def queryUser_def User_def isTArray_def
      looks_like_status_def not_found_test_def encode_pass_def converted_def
      check_and_clean_def user_check_def Let_def)

text \<open>
  C2, as stated, fails in its array half: under \<^verbatim>\<open>Type.Array(User, { minItems: 1 })\<close>
  a read that yields zero rows does not return an empty array. The schema's check
  rejects the empty array, and the caller gets the status 500 with
  \<open>couldn't retrieve users\<close>, or \<open>JUndefined\<close> in opaque mode.
\<close>

theorem C2_counterexample:
  "isTArray (schema queryNoUsers)
   \<and> query_operation queryNoUsers counting_db 0 = (Inr (JArr []), 1)
   \<and> fst (query queryNoUsers ready_world) = JStatus 500 (JStr ''couldn't retrieve users'')
   \<and> fst (query (queryNoUsers\<lparr>opaque := True\<rparr>) ready_world) = JUndefined"
  by (simp add: query_def query_outcome_def classify_def database_def ready_world_def
      unbound_world_def databaseInitialize_def query_operation_def counting_db_def
      queryNoUsers_def Users_nonempty_def Users_def isTArray_def display_name_def
      formatItem_multiple users_def converted_def looks_like_status_def not_found_test_def
      encode_pass_def check_and_clean_def error_def Let_def)

text \<open>
  C2, amended. When the operation has returned: under a schema that is not an array
  schema, the dispatcher returns at the not-found statements exactly when the raw result
  is \<open>JUndefined\<close> or an array whose length is not one, and then the caller gets
  \<open>JUndefined\<close> in opaque mode and otherwise the status 404 with the display name
  followed by \<open>not found\<close>. Under an array schema it never returns there: an array
  of any length, zero included, is converted and encoded, and the dispatcher returns
  the cleaned and cast array when the schema's check accepts it, and the retrieve-failed
  outcome when the check rejects it.
\<close>

theorem C2_not_found:
  assumes "db_handle w = Some accessor" and "accessor (ext w) = (Inr drizzle, x1)"
    and "query_operation r drizzle x1 = (Inr vals, x2)"
  shows
    "(\<not> isTArray (schema r) \<longrightarrow>
        ((\<exists>u. fst (query_outcome r w) = NotFound u) \<longleftrightarrow>
           (vals = JUndefined \<or> (\<exists>rows. vals = JArr rows \<and> length rows \<noteq> 1)))
        \<and> ((vals = JUndefined \<or> (\<exists>rows. vals = JArr rows \<and> length rows \<noteq> 1)) \<longrightarrow>
             query r w =
               (if opaque r then JUndefined
                else JStatus 404 (JStr (display_name r @ '' not found'')),
                w\<lparr>ext := x2\<rparr>)))
     \<and> (isTArray (schema r) \<longrightarrow>
        (\<forall>u. fst (query_outcome r w) \<noteq> NotFound u)
        \<and> (\<forall>rows. vals = JArr rows \<longrightarrow>
             fst (query_outcome r w) =
               (let c = Convert (schema r) (JArr rows);
                    v = (case Encode (schema r) c of Inr u \<Rightarrow> u | Inl e \<Rightarrow> c)
                in if Check (schema r) v
                   then Success (Cast (schema r) (Clean (schema r) v))
                   else RetrieveFailed
                          (if opaque r then JUndefined
                           else JStatus 500
                                  (JStr (''couldn't retrieve '' @ display_name r))))))"
proof -
  let ?m = "isTArray (schema r)"
  let ?w2 = "w\<lparr>ext := x2\<rparr>"
  have out: "query_outcome r w =
      classify (schema r) (display_name r) ?m (opaque r) (vals, ?w2)"
    using assms by (rule query_outcome_returns)
  have iff: "(\<exists>u. fst (query_outcome r w) = NotFound u) \<longleftrightarrow> not_found_test ?m vals"
    by (simp only: out classify_NotFound_iff)
  have sing: "\<not> ?m \<Longrightarrow> not_found_test ?m vals \<longleftrightarrow>
      (vals = JUndefined \<or> (\<exists>rows. vals = JArr rows \<and> length rows \<noteq> 1))"
    by (simp add: not_found_test_iff)
  have ret: "query r w =
      (if opaque r then JUndefined else JStatus 404 (JStr (display_name r @ '' not found'')),
       ?w2)" if "not_found_test ?m vals"
    using that by (simp add: query_def out classify_not_found)
  have plural: "\<not> not_found_test ?m vals" if "?m"
    using that by (simp add: not_found_test_def)
  have arr: "fst (query_outcome r w) =
      (let c = Convert (schema r) (JArr rows);
           v = (case Encode (schema r) c of Inr u \<Rightarrow> u | Inl e \<Rightarrow> c)
       in if Check (schema r) v
          then Success (Cast (schema r) (Clean (schema r) v))
          else RetrieveFailed
                 (if opaque r then JUndefined
                  else JStatus 500 (JStr (''couldn't retrieve '' @ display_name r))))"
    if m: "?m" and v: "vals = JArr rows" for rows
  proof -
    let ?c = "Convert (schema r) (JArr rows)"
    have cv: "converted (schema r) ?m vals = ?c"
      using m v by (simp add: converted_def)
    obtain u w3 where e: "encode_pass (schema r) (display_name r) ?c ?w2 = (u, w3)"
      by (cases "encode_pass (schema r) (display_name r) ?c ?w2")
    have u: "u = (case Encode (schema r) ?c of Inr u \<Rightarrow> u | Inl e \<Rightarrow> ?c)"
      using encode_pass_fst [of "schema r" "display_name r" ?c ?w2] e by simp
    have "query_outcome r w = check_and_clean (schema r) (display_name r) (opaque r) u w3"
      using plural [OF m] v cv e
      by (simp add: out classify_normalise looks_like_status_JArr)
    then show ?thesis
      by (simp add: check_and_clean_fst u Let_def)
  qed
  show ?thesis
    using iff sing ret plural arr by (auto simp: query_fst)
qed

theorem C2_not_found_witness:
  "query (queryUser 2) ready_world =
     (JStatus 404 (JStr ''user not found''), ready_world\<lparr>ext := 1\<rparr>)
   \<and> query ((queryUser 2)\<lparr>opaque := True\<rparr>) ready_world =
     (JUndefined, ready_world\<lparr>ext := 1\<rparr>)
   \<and> fst (query_outcome (queryUsers\<lparr>id_param := Some (IdNum 2),
          idColumn := Some (Column ''id'')\<rparr>) ready_world) = Success (JArr [])
   \<and> fst (query_outcome queryNoUsers ready_world) =
       RetrieveFailed (JStatus 500 (JStr ''couldn't retrieve users''))"
  using
    C2_not_found [where w = ready_world and accessor = "\<lambda>n. (Inr counting_db, n)"
      and drizzle = counting_db and ?x1.0 = 0 and r = "queryUser 2" and vals = "JArr []"
      and ?x2.0 = 1]
    C2_not_found [where w = ready_world and accessor = "\<lambda>n. (Inr counting_db, n)"
      and drizzle = counting_db and ?x1.0 = 0 and r = "(queryUser 2)\<lparr>opaque := True\<rparr>"
      and vals = "JArr []" and ?x2.0 = 1]
    C2_not_found [where w = ready_world and accessor = "\<lambda>n. (Inr counting_db, n)"
      and drizzle = counting_db and ?x1.0 = 0
      and r = "queryUsers\<lparr>id_param := Some (IdNum 2), idColumn := Some (Column ''id'')\<rparr>"
      and vals = "JArr []" and ?x2.0 = 1]
    C2_not_found [where w = ready_world and accessor = "\<lambda>n. (Inr counting_db, n)"
      and drizzle = counting_db and ?x1.0 = 0 and r = queryNoUsers
      and vals = "JArr []" and ?x2.0 = 1]
  by (simp add: ready_world_def unbound_world_def databaseInitialize_def query_operation_def
      counting_db_def queryUser_def queryUsers_def queryNoUsers_def User_def Users_def
      Users_nonempty_def isTArray_def display_name_def formatItem_singular formatItem_multiple
      endsWith_def users_def Let_def)


text \<open>
  C7. When the encoding pass raises on the converted value, the caller gets what it
  would get if the pass had returned the value unchanged, and the outside state is the
  same: the raise is caught, one warning is logged, and the check, clean and cast go on
  with the converted value.
\<close>

theorem C7_encoding_failure_swallowed:
  assumes db: "database (query_operation r) (''query '' @ display_name r) w = (vals, w1)"
    and v: "v = converted (schema r) (isTArray (schema r)) vals"
    and enc: "Encode (schema r) v = Inl e"
  shows
    "fst (query r w) = fst (query (r\<lparr>schema := (schema r)\<lparr>Encode := Inr\<rparr>\<rparr>) w)
     \<and> ext (snd (query r w)) = ext (snd (query (r\<lparr>schema := (schema r)\<lparr>Encode := Inr\<rparr>\<rparr>) w))
     \<and> (\<not> looks_like_status vals \<and> \<not> not_found_test (isTArray (schema r)) vals \<longrightarrow>
          query_outcome r w =
            check_and_clean (schema r) (display_name r) (opaque r) v
              (console_warn (''an error occurred while encoding '' @ display_name r)
                 [Arg v, Arg (JArr (Errors (schema r) v))] w1))"
proof -
  let ?r' = "r\<lparr>schema := (schema r)\<lparr>Encode := Inr\<rparr>\<rparr>"
  let ?m = "isTArray (schema r)"
  let ?t = "display_name r"
  let ?w1' = "console_warn (''an error occurred while encoding '' @ ?t)
                 [Arg v, Arg (JArr (Errors (schema r) v))] w1"
  have o: "query_outcome r w = classify (schema r) ?t ?m (opaque r) (vals, w1)"
    using db by (rule query_outcome_database)
  have "database (query_operation ?r') (''query '' @ display_name ?r') w = (vals, w1)"
    using db by simp
  then have "query_outcome ?r' w =
      classify (schema ?r') (display_name ?r') (isTArray (schema ?r')) (opaque ?r') (vals, w1)"
    by (rule query_outcome_database)
  then have o': "query_outcome ?r' w =
      classify ((schema r)\<lparr>Encode := Inr\<rparr>) ?t ?m (opaque r) (vals, w1)"
    by simp
  show ?thesis
  proof (cases "looks_like_status vals \<or> not_found_test ?m vals")
    case True
    then have "query_outcome r w = query_outcome ?r' w"
      unfolding o o' by (auto simp: classify_def)
    then show ?thesis using True by (auto simp: query_def)
  next
    case False
    then have n: "\<not> looks_like_status vals" "\<not> not_found_test ?m vals" by simp_all
    have a: "query_outcome r w = check_and_clean (schema r) ?t (opaque r) v ?w1'"
      unfolding o using n v enc by (simp add: classify_normalise encode_pass_raises)
    have b: "query_outcome ?r' w = check_and_clean (schema r) ?t (opaque r) v w1"
      unfolding o' using n v by (simp add: classify_normalise encode_pass_noop)
    have "fst (query_outcome r w) = fst (query_outcome ?r' w)"
      by (simp only: a b check_and_clean_fst)
    moreover have "ext (snd (query_outcome r w)) = ext (snd (query_outcome ?r' w))"
      by (simp only: a b check_and_clean_ext console_warn_ext)
    ultimately show ?thesis using a by (simp add: query_fst query_snd)
  qed
qed

theorem C7_encoding_failure_swallowed_witness:
  "fst (query ((queryUser 1)\<lparr>schema := User_encode_fails\<rparr>) ready_world) =
     JObj [(''id'', JNum 1), (''name'', JStr ''alice'')]
   \<and> fst (query (queryUser 1) ready_world) =
     JObj [(''id'', JNum 1), (''name'', JStr ''alice'')]
   \<and> console (snd (query ((queryUser 1)\<lparr>schema := User_encode_fails\<rparr>) ready_world)) =
     [ConsoleWarn ''an error occurred while encoding user'' [Arg alice, Arg (JArr [])]]"
  using C7_encoding_failure_swallowed [where r = "(queryUser 1)\<lparr>schema := User_encode_fails\<rparr>"
      and w = ready_world and vals = "JArr [alice]" and ?w1.0 = "ready_world\<lparr>ext := 1\<rparr>"
      and v = alice and e = "JStr ''no encoder''"]
  by (simp add: query_def query_outcome_def classify_def database_def ready_world_def
      unbound_world_def databaseInitialize_def query_operation_def counting_db_def
      queryUser_def User_def User_encode_fails_def isTArray_def display_name_def
      formatItem_singular endsWith_def users_def converted_def looks_like_status_def
      not_found_test_def encode_pass_def check_and_clean_def user_check_def alice_def
      console_warn_def Let_def)

text \<open>
  C8. When the value that leaves the encoding pass fails the schema's check, the
  dispatcher logs one error and returns, as a value: \<open>JUndefined\<close> in opaque mode,
  otherwise the status 500 with the message \<open>couldn't retrieve\<close> and the display name.
\<close>

theorem C8_validation_failure:
  assumes "database (query_operation r) (''query '' @ display_name r) w = (vals, w1)"
    and "\<not> looks_like_status vals" and "\<not> not_found_test (isTArray (schema r)) vals"
    and "encode_pass (schema r) (display_name r)
           (converted (schema r) (isTArray (schema r)) vals) w1 = (v, w2)"
    and "\<not> Check (schema r) v"
  shows
    "query r w =
       (if opaque r then JUndefined
        else JStatus 500 (JStr (''couldn't retrieve '' @ display_name r)),
        console_error (''an error occurred while parsing '' @ display_name r)
          [Arg v, Arg (JArr (Errors (schema r) v))] w2)
     \<and> (\<exists>u. fst (query_outcome r w) = RetrieveFailed u)"
proof -
  have "query_outcome r w = check_and_clean (schema r) (display_name r) (opaque r) v w2"
    using query_outcome_database [OF assms(1)] assms(2,3,4) by (simp add: classify_normalise)
  then show ?thesis
    using assms(5) by (simp add: query_def check_and_clean_def Let_def error_def)
qed

theorem C8_validation_failure_witness:
  "fst (query ((queryUser 1)\<lparr>complex := Some counting_operation\<rparr>) ready_world) =
     JStatus 500 (JStr ''couldn't retrieve user'')
   \<and> fst (query ((queryUser 1)\<lparr>complex := Some counting_operation, opaque := True\<rparr>)
          ready_world) = JUndefined"
  using
    C8_validation_failure [where r = "(queryUser 1)\<lparr>complex := Some counting_operation\<rparr>"
      and w = ready_world and vals = "JStr ''success''" and ?w1.0 = "ready_world\<lparr>ext := 1\<rparr>"
      and v = "JStr ''success''" and ?w2.0 = "ready_world\<lparr>ext := 1\<rparr>"]
    C8_validation_failure [where
      r = "(queryUser 1)\<lparr>complex := Some counting_operation, opaque := True\<rparr>"
      and w = ready_world and vals = "JStr ''success''" and ?w1.0 = "ready_world\<lparr>ext := 1\<rparr>"
      and v = "JStr ''success''" and ?w2.0 = "ready_world\<lparr>ext := 1\<rparr>"]
  by (simp add: database_def ready_world_def unbound_world_def databaseInitialize_def
      query_operation_def counting_operation_def queryUser_def User_def isTArray_def
      display_name_def formatItem_singular endsWith_def users_def converted_def
      looks_like_status_def not_found_test_def encode_pass_def user_check_def)




end
